theory Spec2Isabelle
  imports Complex_Main "HOL-Library.AList" "HOL-Library.Char_ord" "HOL-Library.List_Lexorder"
    "HOL-Library.Log_Nat"
begin

section \<open>The CAPM trading bot (Task2-bot.py)\<close>

text \<open>
  A shallow embedding of the class \<open>CAPMBot\<close>. Python's unbounded integers are
  \<open>int\<close>. A float is the real number it denotes; infinities and NaN are not modelled.
  The operations on floats that round (the arithmetic on dollar amounts and
  performances, \<open>np.dot\<close>) are not fixed: they are the fields of a record \<open>float_ops\<close>
  that every function computing with them takes as its first argument, so that what is
  proved holds for every rounding, exact arithmetic and binary64 among them.
  Comparisons, \<open>np.floor\<close>, \<open>np.ceil\<close> and \<open>int\<close> are exact on the numbers floats denote,
  and an integer (of magnitude below \<open>2^53\<close>) enters a float operation as itself. The
  phase guards and the margin curve, which compute with the elapsed minutes, are given
  in exact arithmetic.
  Dictionaries are association lists in insertion order. Every method that reads the
  clock through \<open>_find_time_elapsed\<close> takes the elapsed minutes as an argument. Console
  output through \<open>inform\<close> is left out unless a statement is about it. A leading
  underscore of a Python name is dropped.
\<close>

subsection \<open>Data\<close>

datatype OrderSide = BUY | SELL

datatype OrderType = LIMIT | CANCEL

datatype error = KeyError | ValueError | IndexError | ZeroDivisionError

record Market =
  fm_id :: int
  item :: string
  min_price :: int
  max_price :: int
  price_tick :: int
  min_units :: int
  max_units :: int
  unit_tick :: int

record Order =
  mine :: bool
  is_pending :: bool
  market :: Market
  order_side :: OrderSide
  order_type :: OrderType
  price :: int
  units :: int

record Asset =
  asset_market :: Market
  asset_units :: int
  units_available :: int

text \<open>\<open>holdings.assets\<close> is a dictionary from markets to assets; each asset carries its
  market, so the dictionary is the list of its values.\<close>

record Holdings =
  cash :: int
  cash_available :: int
  assets :: "Asset list"

text \<open>
  The agent. \<open>markets\<close> and \<open>holdings\<close> are the attributes the client library keeps;
  \<open>Order_all\<close> and \<open>Order_current\<close> are the values of the library's \<open>Order.all()\<close> and
  \<open>Order.current()\<close>; \<open>sent\<close> collects the orders handed to \<open>send_order\<close>, oldest first.
\<close>

record CAPMBot =
  markets :: "(int \<times> Market) list"
  holdings :: Holdings
  Order_all :: "Order list"
  Order_current :: "Order list"
  sent :: "Order list"
  risk_penalty :: real
  session_time :: real
  market_ids :: "(string \<times> int) list"
  cov_matrix :: "real list list"
  exp_payoffs_matrix :: "real list"
  best_bid_dict :: "(string \<times> Order option) list"
  best_ask_dict :: "(string \<times> Order option) list"
  fair_buy_prices :: "(string \<times> real) list"
  fair_sell_prices :: "(string \<times> real) list"
  order_count :: int
  waiting_for_order :: bool
  MM_PROPORTION :: real
  MARGIN_MAX :: real

text \<open>
  The rounding operations: the four of Python's float arithmetic, \<open>np.dot\<close> of two
  vectors, and the entries of \<open>np.dot\<close> of a matrix with a vector (by row number).
\<close>

record float_ops =
  f_add :: "real \<Rightarrow> real \<Rightarrow> real"
  f_sub :: "real \<Rightarrow> real \<Rightarrow> real"
  f_mul :: "real \<Rightarrow> real \<Rightarrow> real"
  f_div :: "real \<Rightarrow> real \<Rightarrow> real"
  np_dot :: "real list \<Rightarrow> real list \<Rightarrow> real"
  np_dot_row :: "real list list \<Rightarrow> real list \<Rightarrow> nat \<Rightarrow> real"

definition to_dollar :: "float_ops \<Rightarrow> real \<Rightarrow> real" where
  "to_dollar ops cents = f_div ops cents 100"

definition to_cents :: "float_ops \<Rightarrow> real \<Rightarrow> real" where
  "to_cents ops dollar = f_mul ops dollar 100"

text \<open>\<open>int\<close> of a float cuts off the fraction.\<close>

definition py_int :: "real \<Rightarrow> int" where
  "py_int x = (if 0 \<le> x then \<lfloor>x\<rfloor> else \<lceil>x\<rceil>)"

subsection \<open>Acknowledgements of the venue\<close>

text \<open>\<open>order_accepted\<close>: a limit order is only reported; a cancel order clears the
  flag and takes one off the count.\<close>

definition order_accepted :: "Order \<Rightarrow> CAPMBot \<Rightarrow> CAPMBot" where
  "order_accepted order self =
     (if order_type order = LIMIT then self
      else if order_type order = CANCEL then
        self\<lparr>waiting_for_order := False, order_count := order_count self - 1\<rparr>
      else self)"

text \<open>\<open>order_rejected\<close> returns the message it informs (if any) and the new state. The
  remainder \<open>%\<close> by a tick of zero raises, before the count is touched.\<close>

definition order_rejected :: "Order \<Rightarrow> CAPMBot \<Rightarrow> error + (string option \<times> CAPMBot)" where
  "order_rejected order self =
     (let price = price order; units = units order; market = market order;
          reject = (\<lambda>msg. Inr (msg, self\<lparr>order_count := order_count self - 1\<rparr>))
      in if price > max_price market \<or> price < min_price market then
           reject (Some ''Order rejected, price out of range'')
         else if units > max_units market \<or> price < min_units market then
           reject (Some ''Order rejected, units out of range'')
         else if price_tick market = 0 then Inl ZeroDivisionError
         else if price mod price_tick market \<noteq> 0 then
           reject (Some ''Order rejected, price not divisible by price tick'')
         else if unit_tick market = 0 then Inl ZeroDivisionError
         else if units mod unit_tick market \<noteq> 0 then
           reject (Some ''Order rejected, units not divisible by unit tick'')
         else reject None)"

subsection \<open>Order management\<close>

definition make_cancel_order :: "Order \<Rightarrow> Order" where
  "make_cancel_order order = order\<lparr>order_type := CANCEL\<rparr>"

text \<open>The loop of \<open>_clear_orders\<close>: a cancel goes out only while the flag is down, and
  sending one raises the flag.\<close>

fun clear_loop :: "Order list \<Rightarrow> CAPMBot \<Rightarrow> CAPMBot" where
  "clear_loop [] self = self"
| "clear_loop (order # my_orders) self =
     clear_loop my_orders
       (if \<not> waiting_for_order self then
          self\<lparr>sent := sent self @ [make_cancel_order order], waiting_for_order := True\<rparr>
        else self)"

definition clear_orders :: "CAPMBot \<Rightarrow> CAPMBot" where
  "clear_orders self =
     (let my_orders = filter (\<lambda>od. mine od \<and> is_pending od) (Order_all self);
          self1 = self\<lparr>order_count := int (length my_orders)\<rparr>
      in if order_count self1 \<noteq> 0 then clear_loop my_orders self1 else self1)"

subsection \<open>Phase guards\<close>

definition mm_condition :: "real \<Rightarrow> CAPMBot \<Rightarrow> bool \<times> CAPMBot" where
  "mm_condition time self =
     (if time < 2 / 30 then (False, self)
      else if time < MM_PROPORTION self * session_time self \<and> order_count self = 0 then
        (True, self)
      else if time < MM_PROPORTION self * session_time self \<and> order_count self \<noteq> 0 then
        (False, clear_orders self)
      else (False, self))"

definition reactive_condition :: "real \<Rightarrow> CAPMBot \<Rightarrow> bool \<times> CAPMBot" where
  "reactive_condition time self =
     (let self1 = self\<lparr>order_count := int (length (filter mine (Order_current self)))\<rparr>
      in if time < 2 / 30 then (False, self1)
         else if time > MM_PROPORTION self1 * session_time self1 \<and> order_count self1 = 0 then
           (True, self1)
         else if order_count self1 \<noteq> 0 then (False, self1)
         else (False, self1))"

subsection \<open>Making orders\<close>

text \<open>\<open>Market(market_id)\<close> is the client library's market object for an identifier; it
  is read from \<open>markets\<close>, and an identifier the venue does not list is a \<open>KeyError\<close>.\<close>

definition Market_of :: "CAPMBot \<Rightarrow> int \<Rightarrow> error + Market" where
  "Market_of self market_id =
     (case map_of (markets self) market_id of None \<Rightarrow> Inl KeyError | Some m \<Rightarrow> Inr m)"

text \<open>\<open>_make_order\<close>; the defaults \<open>otype = OrderType.LIMIT\<close> and \<open>units = 1\<close> are written
  out by each caller. A new order is the agent's own and not yet pending.\<close>

definition make_order ::
  "CAPMBot \<Rightarrow> int \<Rightarrow> OrderSide \<Rightarrow> int \<Rightarrow> OrderType \<Rightarrow> int \<Rightarrow> error + Order" where
  "make_order self market_id oside oprice otype ounits =
     (case Market_of self market_id of
        Inl e \<Rightarrow> Inl e
      | Inr m \<Rightarrow>
          Inr \<lparr>mine = True, is_pending = False, market = m, order_side = oside,
               order_type = otype, price = oprice, units = ounits\<rparr>)"

fun flip_oside :: "CAPMBot \<Rightarrow> Order list \<Rightarrow> error + Order list" where
  "flip_oside self [] = Inr []"
| "flip_oside self (od # order_list) =
     (let oside = (if order_side od = SELL then BUY else SELL)
      in case make_order self (fm_id (market od)) oside (price od) LIMIT 1 of
           Inl e \<Rightarrow> Inl e
         | Inr new_order \<Rightarrow>
             (case flip_oside self order_list of
                Inl e \<Rightarrow> Inl e
              | Inr resp_orders \<Rightarrow> Inr (new_order # resp_orders)))"

text \<open>\<open>_check_holdings\<close>: the asset of the order's market is looked up first, for either
  side.\<close>

definition check_holdings :: "Order \<Rightarrow> Holdings \<Rightarrow> error + bool" where
  "check_holdings prosp_order h =
     (case find (\<lambda>a. fm_id (asset_market a) = fm_id (market prosp_order)) (assets h) of
        None \<Rightarrow> Inl KeyError
      | Some a \<Rightarrow>
          (let assets_available = units_available a
           in if order_side prosp_order = BUY
                 \<and> cash_available h < price prosp_order * units prosp_order then Inr False
              else if order_side prosp_order = SELL
                 \<and> assets_available < units prosp_order then Inr False
              else Inr True))"

subsection \<open>Portfolio performance\<close>

fun adj_cash :: "float_ops \<Rightarrow> real \<Rightarrow> Order list \<Rightarrow> real" where
  "adj_cash ops c [] = c"
| "adj_cash ops c (order # orders) =
     adj_cash ops
       (if order_side order = BUY
        then f_sub ops c (to_dollar ops (real_of_int (price order)))
        else f_add ops c (to_dollar ops (real_of_int (price order)))) orders"

text \<open>\<open>list.index\<close>, with \<open>None\<close> where Python raises \<open>ValueError\<close>.\<close>

fun index_of :: "'a list \<Rightarrow> 'a \<Rightarrow> nat option" where
  "index_of [] y = None"
| "index_of (x # xs) y = (if x = y then Some 0 else map_option Suc (index_of xs y))"

fun adj_loop ::
  "float_ops \<Rightarrow> string list \<Rightarrow> real list \<Rightarrow> Order list \<Rightarrow> error + real list" where
  "adj_loop ops mkts adjustment [] = Inr adjustment"
| "adj_loop ops mkts adjustment (order # orders) =
     (case index_of mkts (item (market order)) of
        None \<Rightarrow> Inl ValueError
      | Some index \<Rightarrow>
          if length adjustment \<le> index then Inl IndexError
          else adj_loop ops mkts
                 (adjustment[index :=
                    (if order_side order = BUY then f_add ops (adjustment ! index) 1
                     else f_sub ops (adjustment ! index) 1)]) orders)"

definition adj_holdings ::
  "float_ops \<Rightarrow> CAPMBot \<Rightarrow> real list \<Rightarrow> Order list \<Rightarrow> error + real list" where
  "adj_holdings ops self unit_holdings orders =
     (case adj_loop ops (sort (map fst (market_ids self)))
             (replicate (length unit_holdings) 0) orders of
        Inl e \<Rightarrow> Inl e
      | Inr adjustment \<Rightarrow> Inr (map2 (f_add ops) unit_holdings adjustment))"

text \<open>\<open>np.dot\<close> of two vectors, and of a matrix with a vector; a shape that does not fit
  is a \<open>ValueError\<close>.\<close>

definition dot :: "float_ops \<Rightarrow> real list \<Rightarrow> real list \<Rightarrow> error + real" where
  "dot ops u v = (if length u \<noteq> length v then Inl ValueError
                  else Inr (np_dot ops u v))"

definition mat_dot :: "float_ops \<Rightarrow> real list list \<Rightarrow> real list \<Rightarrow> error + real list" where
  "mat_dot ops m v = (if list_ex (\<lambda>row. length row \<noteq> length v) m then Inl ValueError
                      else Inr (map (np_dot_row ops m v) [0..<length m]))"

text \<open>\<open>_find_performance\<close>. The parameter \<open>prosp_orders\<close> defaults to \<open>False\<close>, here
  \<open>None\<close>; the test \<open>if prosp_orders:\<close> holds for a list that is not empty.\<close>

definition find_performance ::
  "float_ops \<Rightarrow> CAPMBot \<Rightarrow> Holdings \<Rightarrow> Order list option \<Rightarrow> error + real" where
  "find_performance ops self h prosp_orders =
     (let cash_holdings = to_dollar ops (real_of_int (cash h));
          unit_holdings = map (\<lambda>a. real_of_int (asset_units a))
                            (sort_key (\<lambda>a. item (asset_market a)) (assets h));
          adjusted =
            (case prosp_orders of
               Some (od # ods) \<Rightarrow>
                 (case adj_holdings ops self unit_holdings (od # ods) of
                    Inl e \<Rightarrow> Inl e
                  | Inr uh \<Rightarrow> Inr (adj_cash ops cash_holdings (od # ods), uh))
             | _ \<Rightarrow> Inr (cash_holdings, unit_holdings))
      in case adjusted of
           Inl e \<Rightarrow> Inl e
         | Inr (cash_holdings, unit_holdings) \<Rightarrow>
             (case dot ops unit_holdings (exp_payoffs_matrix self) of
                Inl e \<Rightarrow> Inl e
              | Inr d \<Rightarrow>
                  (let payoff_exp = f_add ops d cash_holdings
                   in case mat_dot ops (cov_matrix self) unit_holdings of
                        Inl e \<Rightarrow> Inl e
                      | Inr cv \<Rightarrow>
                          (case dot ops unit_holdings cv of
                             Inl e \<Rightarrow> Inl e
                           | Inr payoff_var \<Rightarrow>
                               Inr (f_sub ops payoff_exp
                                      (f_mul ops (risk_penalty self) payoff_var))))))"

definition find_fair_price ::
  "float_ops \<Rightarrow> CAPMBot \<Rightarrow> int \<Rightarrow> Holdings \<Rightarrow> OrderSide \<Rightarrow> error + real" where
  "find_fair_price ops self market_id h oside =
     (case find_performance ops self h None of
        Inl e \<Rightarrow> Inl e
      | Inr pre_performance \<Rightarrow>
          (case make_order self market_id oside 0 LIMIT 1 of
             Inl e \<Rightarrow> Inl e
           | Inr od \<Rightarrow>
               (case find_performance ops self h (Some [od]) of
                  Inl e \<Rightarrow> Inl e
                | Inr post_performance \<Rightarrow>
                    Inr (f_sub ops post_performance pre_performance))))"

subsection \<open>Portfolio optimality search\<close>

text \<open>\<open>_can_react\<close>. The cash test returns before any asset is counted; a sell order
  in a security the holdings do not list is a \<open>KeyError\<close>.\<close>

fun asset_req_loop :: "(string \<rightharpoonup> int) \<Rightarrow> Order list \<Rightarrow> error + (string \<rightharpoonup> int)" where
  "asset_req_loop asset_req_dict [] = Inr asset_req_dict"
| "asset_req_loop asset_req_dict (od # order_list) =
     (if order_side od = SELL then
        (case asset_req_dict (item (market od)) of
           None \<Rightarrow> Inl KeyError
         | Some n \<Rightarrow>
             asset_req_loop (asset_req_dict(item (market od) \<mapsto> n + 1)) order_list)
      else asset_req_loop asset_req_dict order_list)"

fun asset_check_loop :: "(string \<rightharpoonup> int) \<Rightarrow> Asset list \<Rightarrow> error + bool" where
  "asset_check_loop asset_req_dict [] = Inr True"
| "asset_check_loop asset_req_dict (a # rest) =
     (case asset_req_dict (item (asset_market a)) of
        None \<Rightarrow> Inl KeyError
      | Some n \<Rightarrow>
          if n > units_available a then Inr False
          else asset_check_loop asset_req_dict rest)"

definition can_react :: "CAPMBot \<Rightarrow> Order list \<Rightarrow> error + bool" where
  "can_react self order_list =
     (let h = holdings self;
          cash_req = fold (\<lambda>od c. if order_side od = BUY then c + price od else c)
                       order_list 0
      in if cash_req > cash_available h then Inr False
         else
           (let asset_req_dict =
                  fold (\<lambda>a d. d(item (asset_market a) \<mapsto> 0)) (assets h) Map.empty
            in case asset_req_loop asset_req_dict order_list of
                 Inl e \<Rightarrow> Inl e
               | Inr d \<Rightarrow> asset_check_loop d (assets h)))"

text \<open>\<open>itertools.combinations(xs, r)\<close>: the \<open>r\<close>-element selections of \<open>xs\<close> in the order
  of their positions.\<close>

fun combinations :: "'a list \<Rightarrow> nat \<Rightarrow> 'a list list" where
  "combinations xs 0 = [[]]"
| "combinations [] (Suc r) = []"
| "combinations (x # xs) (Suc r) =
     map ((#) x) (combinations xs r) @ combinations xs (Suc r)"

definition all_combos :: "'a list \<Rightarrow> 'a list list" where
  "all_combos best_quotes =
     concat (map (combinations best_quotes) [0..<length best_quotes + 1])"

definition best_quotes_of :: "CAPMBot \<Rightarrow> Order list" where
  "best_quotes_of self =
     List.map_filter id (map snd (best_ask_dict self) @ map snd (best_bid_dict self))"

text \<open>The loop over \<open>all_combos\<close>, carrying \<open>best_combo\<close> and \<open>curr_performance\<close>. Python's
  \<open>and\<close> calls \<open>_can_react\<close> only when the performance has improved.\<close>

fun optimal_loop ::
  "float_ops \<Rightarrow> CAPMBot \<Rightarrow> Order list list \<Rightarrow> Order list option \<Rightarrow> real
     \<Rightarrow> error + (Order list option \<times> real)" where
  "optimal_loop ops self [] best_combo curr_performance = Inr (best_combo, curr_performance)"
| "optimal_loop ops self (combo # combos) best_combo curr_performance =
     (case flip_oside self combo of
        Inl e \<Rightarrow> Inl e
      | Inr resp_orders \<Rightarrow>
          (case find_performance ops self (holdings self) (Some resp_orders) of
             Inl e \<Rightarrow> Inl e
           | Inr prosp_performance \<Rightarrow>
               if prosp_performance > curr_performance then
                 (case can_react self resp_orders of
                    Inl e \<Rightarrow> Inl e
                  | Inr ok \<Rightarrow>
                      if ok then optimal_loop ops self combos (Some combo) prosp_performance
                      else optimal_loop ops self combos best_combo curr_performance)
               else optimal_loop ops self combos best_combo curr_performance))"

text \<open>What \<open>is_portfolio_optimal\<close> returns: a truth value, or with \<open>return_combo\<close> a pair
  of the truth value and the best combination.\<close>

datatype optimal_result = Flag bool | Flag_Combo bool "Order list option"

definition is_portfolio_optimal ::
  "float_ops \<Rightarrow> CAPMBot \<Rightarrow> bool \<Rightarrow> error + optimal_result" where
  "is_portfolio_optimal ops self return_combo =
     (let best_quotes = best_quotes_of self
      in case find_performance ops self (holdings self) None of
           Inl e \<Rightarrow> Inl e
         | Inr curr_performance \<Rightarrow>
             (case optimal_loop ops self (all_combos best_quotes) None curr_performance of
                Inl e \<Rightarrow> Inl e
              | Inr (best_combo, final_performance) \<Rightarrow>
                  if best_combo = None \<and> \<not> return_combo then Inr (Flag True)
                  else if best_combo \<noteq> None \<and> \<not> return_combo then Inr (Flag False)
                  else if best_combo = None then Inr (Flag_Combo True best_combo)
                  else Inr (Flag_Combo False best_combo)))"

subsection \<open>Market making\<close>

text \<open>\<open>_find_margin\<close>. For \<open>b \<le> 0\<close> numpy yields an infinity or a NaN, which the reals do
  not have: the statements about the margin assume \<open>0 < b\<close>.\<close>

definition find_margin :: "CAPMBot \<Rightarrow> real \<Rightarrow> real" where
  "find_margin self time_elapsed =
     (let time_max = session_time self * MM_PROPORTION self;
          b = time_max / 2;
          margin_denom = 1 + exp (1 / sqrt b * (time_elapsed - b))
      in real_of_int \<lceil>MARGIN_MAX self / margin_denom\<rceil>)"

text \<open>\<open>_make_mm_order\<close>: the difference or sum, the quotient by the tick and the product
  with the tick are float operations. With a tick of zero the quotient is not finite and
  \<open>int\<close> raises \<open>ValueError\<close>.\<close>

definition make_mm_order ::
  "float_ops \<Rightarrow> CAPMBot \<Rightarrow> string \<Rightarrow> real \<Rightarrow> real \<Rightarrow> OrderSide \<Rightarrow> error + Order" where
  "make_mm_order ops self asset prices margin oside =
     (case map_of (market_ids self) asset of
        None \<Rightarrow> Inl KeyError
      | Some market_id \<Rightarrow>
          (case map_of (markets self) market_id of
             None \<Rightarrow> Inl KeyError
           | Some m \<Rightarrow>
               (let tick = price_tick m
                in if tick = 0 then Inl ValueError
                   else
                     (let oprice =
                            (if oside = BUY
                             then py_int (f_mul ops
                                    (real_of_int \<lfloor>f_div ops (f_sub ops prices margin)
                                                    (real_of_int tick)\<rfloor>)
                                    (real_of_int tick))
                             else py_int (f_mul ops
                                    (real_of_int \<lceil>f_div ops (f_add ops prices margin)
                                                    (real_of_int tick)\<rceil>)
                                    (real_of_int tick)))
                      in make_order self market_id oside oprice LIMIT 1))))"

text \<open>One order checked against the holdings and, if they suffice, sent and counted.\<close>

definition submit_checked :: "Order \<Rightarrow> CAPMBot \<Rightarrow> error + CAPMBot" where
  "submit_checked new_order self =
     (case check_holdings new_order (holdings self) of
        Inl e \<Rightarrow> Inl e
      | Inr ok \<Rightarrow>
          Inr (if ok then self\<lparr>sent := sent self @ [new_order],
                                order_count := order_count self + 1\<rparr>
               else self))"

fun mm_buy_loop ::
  "float_ops \<Rightarrow> real \<Rightarrow> (string \<times> real) list \<Rightarrow> CAPMBot \<Rightarrow> error + CAPMBot" where
  "mm_buy_loop ops margin [] self = Inr self"
| "mm_buy_loop ops margin ((asset, prices) # rest) self =
     (if to_cents ops prices > margin then
        (case make_mm_order ops self asset (to_cents ops prices) margin BUY of
           Inl e \<Rightarrow> Inl e
         | Inr new_order \<Rightarrow>
             (case submit_checked new_order self of
                Inl e \<Rightarrow> Inl e
              | Inr self1 \<Rightarrow> mm_buy_loop ops margin rest self1))
      else mm_buy_loop ops margin rest self)"

fun mm_sell_loop ::
  "float_ops \<Rightarrow> real \<Rightarrow> (string \<times> real) list \<Rightarrow> CAPMBot \<Rightarrow> error + CAPMBot" where
  "mm_sell_loop ops margin [] self = Inr self"
| "mm_sell_loop ops margin ((asset, prices) # rest) self =
     (if to_cents ops prices > 0 then
        (case make_mm_order ops self asset 0 margin SELL of
           Inl e \<Rightarrow> Inl e
         | Inr new_order \<Rightarrow>
             (case submit_checked new_order self of
                Inl e \<Rightarrow> Inl e
              | Inr self1 \<Rightarrow> mm_sell_loop ops margin rest self1))
      else if to_cents ops (- prices) > margin then
        (case make_mm_order ops self asset (to_cents ops (- prices)) margin SELL of
           Inl e \<Rightarrow> Inl e
         | Inr new_order \<Rightarrow>
             (case submit_checked new_order self of
                Inl e \<Rightarrow> Inl e
              | Inr self1 \<Rightarrow> mm_sell_loop ops margin rest self1))
      else mm_sell_loop ops margin rest self)"

text \<open>\<open>_mm_strategy\<close>; the performance is computed once for the report, and an
  exception there ends the run.\<close>

definition mm_strategy :: "float_ops \<Rightarrow> real \<Rightarrow> CAPMBot \<Rightarrow> error + CAPMBot" where
  "mm_strategy ops time_elapsed self =
     (let margin = find_margin self time_elapsed
      in case find_performance ops self (holdings self) None of
           Inl e \<Rightarrow> Inl e
         | Inr performance \<Rightarrow>
             (case mm_buy_loop ops margin (fair_buy_prices self) self of
                Inl e \<Rightarrow> Inl e
              | Inr self1 \<Rightarrow> mm_sell_loop ops margin (fair_sell_prices self1) self1))"

subsection \<open>The quotes of the market-making strategy as the specification words them\<close>

text \<open>A quote is a limit order of the agent for one unit.\<close>

definition mm_order :: "Market \<Rightarrow> OrderSide \<Rightarrow> int \<Rightarrow> Order" where
  "mm_order m oside p = \<lparr>mine = True, is_pending = False, market = m, order_side = oside,
                          order_type = LIMIT, price = p, units = 1\<rparr>"

text \<open>The market of a security, through the identifier recorded for it.\<close>

definition security_market :: "CAPMBot \<Rightarrow> string \<Rightarrow> Market option" where
  "security_market self asset =
     (case map_of (market_ids self) asset of
        None \<Rightarrow> None
      | Some market_id \<Rightarrow> map_of (markets self) market_id)"

text \<open>\<open>floor((fairBuy - margin)/tick)*tick\<close> and \<open>ceil((base + margin)/tick)*tick\<close>, in the
  arithmetic of floats.\<close>

definition buy_quote_price :: "float_ops \<Rightarrow> real \<Rightarrow> real \<Rightarrow> int \<Rightarrow> int" where
  "buy_quote_price ops fair_buy margin tick =
     py_int (f_mul ops
       (real_of_int \<lfloor>f_div ops (f_sub ops fair_buy margin) (real_of_int tick)\<rfloor>)
       (real_of_int tick))"

definition sell_quote_price :: "float_ops \<Rightarrow> real \<Rightarrow> real \<Rightarrow> int \<Rightarrow> int" where
  "sell_quote_price ops base margin tick =
     py_int (f_mul ops
       (real_of_int \<lceil>f_div ops (f_add ops base margin) (real_of_int tick)\<rceil>)
       (real_of_int tick))"

definition fundable :: "CAPMBot \<Rightarrow> Order \<Rightarrow> bool" where
  "fundable self od \<longleftrightarrow> check_holdings od (holdings self) = Inr True"

text \<open>The buy order expected for an entry of the fair buy prices: none unless the fair
  price in cents is above the margin and the holdings fund the order.\<close>

definition expected_buy :: "float_ops \<Rightarrow> CAPMBot \<Rightarrow> real \<Rightarrow> string \<times> real \<Rightarrow> Order option" where
  "expected_buy ops self margin entry =
     (let fair_buy = to_cents ops (snd entry)
      in if margin < fair_buy then
           (case security_market self (fst entry) of
              None \<Rightarrow> None
            | Some m \<Rightarrow>
                (let od = mm_order m BUY
                            (buy_quote_price ops fair_buy margin (price_tick m))
                 in if fundable self od then Some od else None))
         else None)"

text \<open>The sell order expected for an entry of the fair sell prices: based on zero when
  the fair sell price is positive, on its magnitude when that exceeds the margin, and
  none otherwise or when the holdings do not fund it.\<close>

definition expected_sell :: "float_ops \<Rightarrow> CAPMBot \<Rightarrow> real \<Rightarrow> string \<times> real \<Rightarrow> Order option" where
  "expected_sell ops self margin entry =
     (let fair_sell = to_cents ops (snd entry);
          fair_sell_abs = to_cents ops (- snd entry)
      in if 0 < fair_sell \<or> margin < fair_sell_abs then
           (case security_market self (fst entry) of
              None \<Rightarrow> None
            | Some m \<Rightarrow>
                (let od = mm_order m SELL
                            (sell_quote_price ops (if 0 < fair_sell then 0 else fair_sell_abs)
                               margin (price_tick m))
                 in if fundable self od then Some od else None))
         else None)"

subsection \<open>Holdings updates\<close>

fun fair_loop ::
  "float_ops \<Rightarrow> Holdings \<Rightarrow> (int \<times> Market) list \<Rightarrow> CAPMBot \<Rightarrow> error + CAPMBot" where
  "fair_loop ops h [] self = Inr self"
| "fair_loop ops h ((market_id, market_info) # rest) self =
     (let security = item market_info
      in case find_fair_price ops self market_id h BUY of
           Inl e \<Rightarrow> Inl e
         | Inr fair_buy \<Rightarrow>
             (case find_fair_price ops self market_id h SELL of
                Inl e \<Rightarrow> Inl e
              | Inr fair_sell \<Rightarrow>
                  fair_loop ops h rest
                    (self\<lparr>fair_buy_prices :=
                             AList.update security fair_buy (fair_buy_prices self),
                           fair_sell_prices :=
                             AList.update security fair_sell (fair_sell_prices self)\<rparr>)))"

text \<open>\<open>received_holdings\<close>: the fair prices are refreshed, then notes are traded for
  cash. \<open>sorted(...)[-1]\<close> of no market at all is an \<open>IndexError\<close>.\<close>

definition received_holdings :: "float_ops \<Rightarrow> Holdings \<Rightarrow> CAPMBot \<Rightarrow> error + CAPMBot" where
  "received_holdings ops h self =
     (case fair_loop ops h (sort_key fst (markets self)) self of
        Inl e \<Rightarrow> Inl e
      | Inr self1 \<Rightarrow>
          (case sort (map snd (market_ids self1)) of
             [] \<Rightarrow> Inl IndexError
           | m # ms \<Rightarrow>
               (let note_id = last (m # ms)
                in if cash h < 1000 then
                     (case Market_of self1 note_id of
                        Inl e \<Rightarrow> Inl e
                      | Inr note_market \<Rightarrow>
                          (case find (\<lambda>a. fm_id (asset_market a) = fm_id note_market)
                                  (assets h) of
                             None \<Rightarrow> Inl KeyError
                           | Some a \<Rightarrow>
                               if asset_units a > 2 \<and> order_count self1 = 0 then
                                 (case make_order self1 note_id SELL 495 LIMIT 2 of
                                    Inl e \<Rightarrow> Inl e
                                  | Inr od \<Rightarrow>
                                      (case check_holdings od h of
                                         Inl e \<Rightarrow> Inl e
                                       | Inr ok \<Rightarrow>
                                           Inr (if ok
                                                then self1\<lparr>sent := sent self1 @ [od],
                                                     order_count := order_count self1 + 2\<rparr>
                                                else self1)))
                               else Inr self1))
                   else Inr self1)))"

subsection \<open>Two arithmetics\<close>

text \<open>Exact arithmetic: nothing is rounded.\<close>

definition exact :: float_ops where
  "exact = \<lparr>f_add = (+), f_sub = (-), f_mul = (*), f_div = (/),
             np_dot = (\<lambda>u v. sum_list (map2 (*) u v)),
             np_dot_row = (\<lambda>m v i. sum_list (map2 (*) (m ! i) v))\<rparr>"

text \<open>Binary64 arithmetic for numbers in the normal range: every operation is the exact
  one followed by rounding to the nearest number with 53 significant bits, ties to the
  even one; a dot product adds its products from the left.\<close>

definition ilog2 :: "real \<Rightarrow> int" where
  "ilog2 x = (if 1 \<le> x then bitlen \<lfloor>x\<rfloor> - 1 else - bitlen (\<lceil>1 / x\<rceil> - 1))"

definition pow2 :: "int \<Rightarrow> real" where
  "pow2 e = (if 0 \<le> e then 2 ^ nat e else 1 / 2 ^ nat (- e))"

definition round_half_even :: "real \<Rightarrow> int" where
  "round_half_even y =
     (let m = \<lfloor>y\<rfloor>; r = y - real_of_int m
      in if r < 1 / 2 then m else if 1 / 2 < r then m + 1
         else if even m then m else m + 1)"

definition round64 :: "real \<Rightarrow> real" where
  "round64 x =
     (if x = 0 then 0
      else (let e = ilog2 \<bar>x\<bar> - 52
            in sgn x * (real_of_int (round_half_even (\<bar>x\<bar> / pow2 e)) * pow2 e)))"

definition dot64 :: "real list \<Rightarrow> real list \<Rightarrow> real" where
  "dot64 u v = fold (\<lambda>p acc. round64 (acc + round64 (fst p * snd p))) (zip u v) 0"

definition binary64 :: float_ops where
  "binary64 = \<lparr>f_add = (\<lambda>a b. round64 (a + b)), f_sub = (\<lambda>a b. round64 (a - b)),
                f_mul = (\<lambda>a b. round64 (a * b)), f_div = (\<lambda>a b. round64 (a / b)),
                np_dot = dot64, np_dot_row = (\<lambda>m v i. dot64 (m ! i) v)\<rparr>"

subsection \<open>A concrete agent\<close>

text \<open>Two securities, a stock \<open>A\<close> and the note, with the constructor's defaults
  (risk penalty 0.0175, session time 10, market-making share 0.2, largest margin 50).
  The agent holds five units of each and five dollars; nobody buys its stock while a
  unit of it is reserved, so no unit of \<open>A\<close> is available.\<close>

definition market_A :: Market where
  "market_A = \<lparr>fm_id = 1, item = ''A'', min_price = 0, max_price = 1000, price_tick = 5,
                min_units = 1, max_units = 20, unit_tick = 1\<rparr>"

definition market_Note :: Market where
  "market_Note = \<lparr>fm_id = 2, item = ''Note'', min_price = 0, max_price = 1000,
                   price_tick = 5, min_units = 1, max_units = 20, unit_tick = 1\<rparr>"

definition quote :: "Market \<Rightarrow> OrderSide \<Rightarrow> int \<Rightarrow> Order" where
  "quote m oside p = \<lparr>mine = False, is_pending = True, market = m, order_side = oside,
                       order_type = LIMIT, price = p, units = 1\<rparr>"

definition holdings0 :: Holdings where
  "holdings0 = \<lparr>cash = 500, cash_available = 500,
                 assets = [\<lparr>asset_market = market_A, asset_units = 5, units_available = 0\<rparr>,
                           \<lparr>asset_market = market_Note, asset_units = 5,
                            units_available = 5\<rparr>]\<rparr>"

definition bot0 :: CAPMBot where
  "bot0 = \<lparr>markets = [(1, market_A), (2, market_Note)],
            holdings = holdings0,
            Order_all = [], Order_current = [], sent = [],
            risk_penalty = 175 / 10000, session_time = 10,
            market_ids = [(''A'', 1), (''Note'', 2)],
            cov_matrix = [[1, 0], [0, 0]],
            exp_payoffs_matrix = [2, 5],
            best_bid_dict = [(''A'', Some (quote market_A BUY 300)), (''Note'', None)],
            best_ask_dict = [(''A'', Some (quote market_A SELL 100)), (''Note'', None)],
            fair_buy_prices = [], fair_sell_prices = [],
            order_count = 0, waiting_for_order = False,
            MM_PROPORTION = 2 / 10, MARGIN_MAX = 50\<rparr>"

text \<open>An order of the agent's own, and the agent while it waits for the venue.\<close>

definition own_limit :: Order where
  "own_limit = \<lparr>mine = True, is_pending = True, market = market_A, order_side = BUY,
                 order_type = LIMIT, price = 100, units = 1\<rparr>"

definition bot_waiting :: CAPMBot where
  "bot_waiting = bot0\<lparr>Order_all := [own_limit], Order_current := [own_limit],
                      order_count := 1, waiting_for_order := True\<rparr>"

text \<open>A market that trades in lots of at least three units, and a sale of two units
  there at 495, the order \<open>received_holdings\<close> makes.\<close>

definition market_Bulk :: Market where
  "market_Bulk = \<lparr>fm_id = 3, item = ''Bulk'', min_price = 0, max_price = 1000,
                   price_tick = 5, min_units = 3, max_units = 20, unit_tick = 1\<rparr>"

definition bulk_sale :: Order where
  "bulk_sale = \<lparr>mine = True, is_pending = False, market = market_Bulk, order_side = SELL,
                 order_type = LIMIT, price = 495, units = 2\<rparr>"

text \<open>The agent with one order outstanding and no cancel under way.\<close>

definition bot_busy :: CAPMBot where
  "bot_busy = bot0\<lparr>Order_all := [own_limit], Order_current := [own_limit],
                   order_count := 1\<rparr>"

text \<open>The sale of two notes at 495 that \<open>received_holdings\<close> makes for a thin cash
  balance.\<close>

definition note_sale :: "Market \<Rightarrow> Order" where
  "note_sale note_market =
     \<lparr>mine = True, is_pending = False, market = note_market, order_side = SELL,
      order_type = LIMIT, price = 495, units = 2\<rparr>"

text \<open>The agent long in the stock: 150 units of \<open>A\<close>, all available, and the fair prices
  \<open>received_holdings\<close> derives from these holdings in exact arithmetic. Selling a unit
  of \<open>A\<close> at price zero raises the performance by 3.2325, so the fair sell price of \<open>A\<close>
  is positive.\<close>

definition holdings_long :: Holdings where
  "holdings_long = \<lparr>cash = 500, cash_available = 500,
     assets = [\<lparr>asset_market = market_A, asset_units = 150, units_available = 150\<rparr>,
               \<lparr>asset_market = market_Note, asset_units = 5, units_available = 5\<rparr>]\<rparr>"

definition bot_long :: CAPMBot where
  "bot_long = bot0\<lparr>holdings := holdings_long,
                   fair_buy_prices := [(''A'', - (1307 / 400)), (''Note'', 5)],
                   fair_sell_prices := [(''A'', 1293 / 400), (''Note'', - 5)]\<rparr>"


subsection \<open>The optimality search as the specification words it\<close>

text \<open>The counter-trade for a quote: the agent takes the other side, one unit at the
  price of the quote, in the market of the quote.\<close>

definition counter_trade :: "Order \<Rightarrow> Order" where
  "counter_trade q =
     \<lparr>mine = True, is_pending = False, market = market q,
      order_side = (if order_side q = SELL then BUY else SELL),
      order_type = LIMIT, price = price q, units = 1\<rparr>"


text \<open>The performance gained by answering a combination of quotes: the difference of
  the two performances that \<open>find_performance\<close> computes (values only where that raises
  nothing), so that it is positive exactly when the computed performance of the
  counter-trades is above the computed performance of the holdings.\<close>

definition improvement :: "float_ops \<Rightarrow> CAPMBot \<Rightarrow> Order list \<Rightarrow> real" where
  "improvement ops self combo =
     projr (find_performance ops self (holdings self) (Some (map counter_trade combo)))
       - projr (find_performance ops self (holdings self) None)"




text \<open>The agent with 23 cents, all units available, and one bid in the book: 500 for a
  note. A note pays 5 dollars for certain, so selling one at 500 gains nothing.\<close>

definition holdings_thin :: Holdings where
  "holdings_thin = \<lparr>cash = 23, cash_available = 23,
     assets = [\<lparr>asset_market = market_A, asset_units = 5, units_available = 5\<rparr>,
               \<lparr>asset_market = market_Note, asset_units = 5, units_available = 5\<rparr>]\<rparr>"

definition bot_thin :: CAPMBot where
  "bot_thin = bot0\<lparr>holdings := holdings_thin, risk_penalty := round64 (175 / 10000),
                   best_bid_dict := [(''A'', None),
                                     (''Note'', Some (quote market_Note BUY 500))],
                   best_ask_dict := [(''A'', None), (''Note'', None)]\<rparr>"

section \<open>Verified properties\<close>

subsection \<open>Acceptance of an order\<close>

text \<open>
  C2, as the code has it: accepting a limit order changes nothing, so the flag
  \<open>awaitingResponse\<close> (\<open>_waiting_for_order\<close>) stays as it was; accepting a cancel order
  takes exactly one off \<open>orderCount\<close> and clears the flag, and touches nothing else.
\<close>

theorem order_accepted_ack:
  "(order_type od = LIMIT \<longrightarrow> order_accepted od self = self) \<and>
   (order_type od = CANCEL \<longrightarrow>
      order_accepted od self
        = self\<lparr>waiting_for_order := False, order_count := order_count self - 1\<rparr>
      \<and> order_count (order_accepted od self) = order_count self - 1
      \<and> \<not> waiting_for_order (order_accepted od self))"
  by (simp add: order_accepted_def)

theorem order_accepted_ack_witness:
  "order_accepted own_limit bot_waiting = bot_waiting \<and>
   order_count (order_accepted (make_cancel_order own_limit) bot_waiting) = 0 \<and>
   \<not> waiting_for_order (order_accepted (make_cancel_order own_limit) bot_waiting)"
  using order_accepted_ack [of own_limit bot_waiting]
    order_accepted_ack [of "make_cancel_order own_limit" bot_waiting]
  by (simp add: own_limit_def make_cancel_order_def bot_waiting_def bot0_def)

text \<open>C2 as stated fails: the agent waits for a response, one of its limit orders is
  accepted, and it still waits.\<close>

theorem order_accepted_limit_keeps_flag:
  "order_type own_limit = LIMIT \<and>
   waiting_for_order bot_waiting \<and>
   waiting_for_order (order_accepted own_limit bot_waiting)"
  by (simp add: order_accepted_def own_limit_def bot_waiting_def bot0_def)

text \<open>
  C10: accepting a limit order leaves both \<open>orderCount\<close> and \<open>awaitingResponse\<close> as they
  were, and an acceptance that changes \<open>orderCount\<close> is the acceptance of a cancel order
  and lowers it by one.
\<close>

theorem order_accepted_frame:
  "(order_type od = LIMIT \<longrightarrow>
      order_count (order_accepted od self) = order_count self \<and>
      waiting_for_order (order_accepted od self) = waiting_for_order self) \<and>
   (order_count (order_accepted od self) \<noteq> order_count self \<longrightarrow>
      order_type od = CANCEL \<and>
      order_count (order_accepted od self) = order_count self - 1)"
  by (cases "order_type od") (simp_all add: order_accepted_def)

theorem order_accepted_frame_witness:
  "order_count (order_accepted own_limit bot_waiting) = 1 \<and>
   waiting_for_order (order_accepted own_limit bot_waiting) \<and>
   order_type (make_cancel_order own_limit) = CANCEL \<and>
   order_count (order_accepted (make_cancel_order own_limit) bot_waiting) = 0"
  using order_accepted_frame [of own_limit bot_waiting]
    order_accepted_frame [of "make_cancel_order own_limit" bot_waiting]
  by (simp add: own_limit_def make_cancel_order_def bot_waiting_def bot0_def
      order_accepted_def)

subsection \<open>Performance\<close>

text \<open>
  C7: for every holdings state, in every arithmetic, the performance with an empty list
  of prospective orders is the performance with no prospective orders, exceptions
  included.
\<close>

theorem find_performance_empty_orders:
  "find_performance ops self h (Some []) = find_performance ops self h None"
  by (simp add: find_performance_def)

theorem find_performance_empty_orders_witness:
  "find_performance exact bot0 holdings0 (Some []) = Inr (633 / 16)"
proof -
  have "find_performance exact bot0 holdings0 None = Inr (633 / 16)"
    by code_simp
  with find_performance_empty_orders [of exact bot0 holdings0] show ?thesis
    by simp
qed

subsection \<open>Rejection of an order\<close>

text \<open>Whenever \<open>order_rejected\<close> returns, it has taken exactly one off \<open>orderCount\<close> and
  changed nothing else: nothing is sent again.\<close>

lemma order_rejected_state:
  "order_rejected od self = Inr (msg, self') \<Longrightarrow>
     self' = self\<lparr>order_count := order_count self - 1\<rparr>"
  by (auto simp: order_rejected_def Let_def split: if_splits)

text \<open>
  C8 at a sale of two units in a market whose smallest lot is three: the units are out
  of bounds, and \<open>order_rejected\<close> reports no reason at all (it compares the price with
  the smallest lot), while it takes one off \<open>orderCount\<close>.
\<close>

theorem order_rejected_units_below_minimum:
  "units bulk_sale < min_units (market bulk_sale) \<and>
   order_rejected bulk_sale bot_busy = Inr (None, bot_busy\<lparr>order_count := 0\<rparr>)"
  by (simp add: order_rejected_def bulk_sale_def market_Bulk_def bot_busy_def bot0_def)

subsection \<open>Phase guards\<close>

text \<open>What \<open>_clear_orders\<close> does: the count becomes the number of the agent's pending
  orders, and unless a response is awaited already, one cancel goes out, for the first
  of them, and the flag is raised.\<close>

lemma clear_loop_waiting:
  "waiting_for_order self \<Longrightarrow> clear_loop my_orders self = self"
  by (induction my_orders) simp_all

lemma clear_orders_effect:
  "clear_orders self =
     (let my_orders = filter (\<lambda>od. mine od \<and> is_pending od) (Order_all self);
          self1 = self\<lparr>order_count := int (length my_orders)\<rparr>
      in case my_orders of
           [] \<Rightarrow> self1
         | od # rest \<Rightarrow>
             if waiting_for_order self then self1
             else self1\<lparr>sent := sent self @ [make_cancel_order od],
                        waiting_for_order := True\<rparr>)"
  by (simp add: clear_orders_def Let_def clear_loop_waiting split: list.splits)

text \<open>
  C4, as the code has it: the market-making guard is true exactly when the elapsed time
  lies in \<open>[2/30, phaseFraction * sessionDuration)\<close> and \<open>orderCount\<close> is zero; in that
  window with \<open>orderCount\<close> not zero it runs \<open>_clear_orders\<close> and is false; in every other
  case it is false and changes nothing.
\<close>

theorem mm_condition_window:
  "(fst (mm_condition time self) \<longleftrightarrow>
      2 / 30 \<le> time \<and> time < MM_PROPORTION self * session_time self
      \<and> order_count self = 0) \<and>
   (2 / 30 \<le> time \<and> time < MM_PROPORTION self * session_time self
      \<and> order_count self \<noteq> 0 \<longrightarrow>
      mm_condition time self = (False, clear_orders self)) \<and>
   (\<not> (2 / 30 \<le> time \<and> time < MM_PROPORTION self * session_time self
       \<and> order_count self \<noteq> 0) \<longrightarrow>
      snd (mm_condition time self) = self)"
  by (simp add: mm_condition_def)

theorem mm_condition_window_witness:
  "fst (mm_condition 1 bot0) \<and>
   mm_condition 1 bot_busy = (False, clear_orders bot_busy) \<and>
   sent (clear_orders bot_busy) = [make_cancel_order own_limit] \<and>
   snd (mm_condition 3 bot_busy) = bot_busy"
  using mm_condition_window [of 1 bot0] mm_condition_window [of 1 bot_busy]
    mm_condition_window [of 3 bot_busy]
  by (simp add: bot_busy_def bot0_def clear_orders_effect own_limit_def Let_def)

text \<open>C4 as stated fails in the first four seconds: at two seconds (1/30 of a minute)
  with no order outstanding the guard is false, and with an order outstanding it is false
  without clearing anything.\<close>

theorem mm_condition_startup:
  "(0 :: real) \<le> 1 / 30 \<and> 1 / 30 < MM_PROPORTION bot0 * session_time bot0 \<and>
   order_count bot0 = 0 \<and> \<not> fst (mm_condition (1 / 30) bot0) \<and>
   order_count bot_busy \<noteq> 0 \<and>
   mm_condition (1 / 30) bot_busy = (False, bot_busy) \<and>
   clear_orders bot_busy \<noteq> bot_busy"
proof -
  have "sent (clear_orders bot_busy) \<noteq> sent bot_busy"
    by (simp add: bot_busy_def bot0_def clear_orders_effect own_limit_def Let_def)
  then have "clear_orders bot_busy \<noteq> bot_busy"
    by auto
  then show ?thesis
    by (simp add: mm_condition_def bot_busy_def bot0_def)
qed

text \<open>
  C5, as the code has it: the reactive guard is true exactly when the elapsed time is at
  least 2/30, strictly after \<open>phaseFraction * sessionDuration\<close>, and none of the current
  orders is the agent's own; it is false in every other case, and it always sets
  \<open>orderCount\<close> to the number of the agent's current orders.
\<close>

theorem reactive_condition_window:
  "(fst (reactive_condition time self) \<longleftrightarrow>
      2 / 30 \<le> time \<and> MM_PROPORTION self * session_time self < time
      \<and> filter mine (Order_current self) = []) \<and>
   snd (reactive_condition time self)
     = self\<lparr>order_count := int (length (filter mine (Order_current self)))\<rparr>"
  by (simp add: reactive_condition_def Let_def)

theorem reactive_condition_window_witness:
  "fst (reactive_condition 3 bot0) \<and> \<not> fst (reactive_condition 3 bot_busy) \<and>
   order_count (snd (reactive_condition 3 bot_busy)) = 1"
  using reactive_condition_window [of 3 bot0] reactive_condition_window [of 3 bot_busy]
  by (simp add: bot_busy_def bot0_def own_limit_def)

text \<open>C5 as stated fails at the boundary: at exactly \<open>phaseFraction * sessionDuration\<close>
  (two minutes) with no order of its own the guard is false.\<close>

theorem reactive_condition_boundary:
  "MM_PROPORTION bot0 * session_time bot0 \<le> 2 \<and>
   Order_current bot0 = [] \<and>
   \<not> fst (reactive_condition 2 bot0)"
  by (simp add: reactive_condition_def bot0_def)

subsection \<open>The margin curve\<close>









subsection \<open>Holdings updates\<close>

lemma sorted_last_Max:
  fixes ys :: "int list"
  shows "sorted ys \<Longrightarrow> ys \<noteq> [] \<Longrightarrow> last ys = Max (set ys)"
proof (induction ys)
  case Nil
  then show ?case by simp
next
  case (Cons y ys)
  show ?case
  proof (cases "ys = []")
    case True
    then show ?thesis by simp
  next
    case False
    with Cons have "last ys = Max (set ys)"
      by simp
    moreover have "y \<le> Max (set ys)"
      using Cons.prems(1) False by (simp add: Max_ge_iff) (meson last_in_set)
    ultimately show ?thesis
      using False by (simp add: max_absorb2)
  qed
qed

lemma sort_not_Nil:
  fixes xs :: "int list"
  shows "xs \<noteq> [] \<Longrightarrow> sort xs \<noteq> []"
  using length_sort [of "\<lambda>x. x" xs] by (metis length_0_conv)

lemma last_sort_Max:
  fixes xs :: "int list"
  shows "xs \<noteq> [] \<Longrightarrow> last (sort xs) = Max (set xs)"
  using sorted_last_Max [of "sort xs"] by (simp add: sort_not_Nil)

text \<open>Refreshing the fair prices changes the two fair-price dictionaries only.\<close>

lemma fair_loop_frame:
  "fair_loop ops h ms self = Inr self1 \<Longrightarrow>
     self1 = self\<lparr>fair_buy_prices := fair_buy_prices self1,
                   fair_sell_prices := fair_sell_prices self1\<rparr>"
proof (induction ms arbitrary: self)
  case Nil
  then show ?case by simp
next
  case (Cons p ms)
  obtain market_id market_info where p: "p = (market_id, market_info)"
    by (cases p)
  from Cons.prems obtain fb fs where
    step: "fair_loop ops h ms
             (self\<lparr>fair_buy_prices := AList.update (item market_info) fb (fair_buy_prices self),
                    fair_sell_prices := AList.update (item market_info) fs (fair_sell_prices self)\<rparr>)
           = Inr self1"
    unfolding p by (auto simp: Let_def split: sum.splits)
  from Cons.IH [OF step] show ?case
    by simp
qed

text \<open>
  C9, in every arithmetic: when the refresh of the fair prices raises nothing, the cash
  is below 1000, more than two units are held in the market with the highest identifier,
  \<open>orderCount\<close> is zero and \<open>_check_holdings\<close> passes, the handler sends exactly one
  order, a limit sale of two units at 495 in that market, and adds 2 to \<open>orderCount\<close>;
  beyond that only the fair prices have changed.
\<close>

theorem received_holdings_note_sale:
  assumes refresh: "fair_loop ops h (sort_key fst (markets self)) self = Inr self1"
    and ids: "market_ids self \<noteq> []"
    and top: "map_of (markets self) (Max (set (map snd (market_ids self))))
                 = Some note_market"
    and held: "find (\<lambda>a. fm_id (asset_market a) = fm_id note_market) (assets h) = Some a"
    and low_cash: "cash h < 1000"
    and many: "asset_units a > 2"
    and idle: "order_count self = 0"
    and feasible: "check_holdings (note_sale note_market) h = Inr True"
  shows "received_holdings ops h self
           = Inr (self1\<lparr>sent := sent self @ [note_sale note_market],
                        order_count := order_count self + 2\<rparr>)"
proof -
  define fb fs where "fb = fair_buy_prices self1" and "fs = fair_sell_prices self1"
  have "self1 = self\<lparr>fair_buy_prices := fb, fair_sell_prices := fs\<rparr>"
    unfolding fb_def fs_def by (rule fair_loop_frame [OF refresh])
  then have same: "markets self1 = markets self" "market_ids self1 = market_ids self"
    "order_count self1 = order_count self" "sent self1 = sent self"
    by simp_all
  define nid where "nid = Max (set (map snd (market_ids self)))"
  from ids obtain m ms where srt: "sort (map snd (market_ids self)) = m # ms"
    using sort_not_Nil [of "map snd (market_ids self)"]
    by (cases "sort (map snd (market_ids self))") simp_all
  have "last (sort (map snd (market_ids self))) = nid"
    unfolding nid_def using ids by (intro last_sort_Max) simp
  then have last: "last (m # ms) = nid"
    unfolding srt .
  have mk: "Market_of self1 nid = Inr note_market"
    using top by (simp add: Market_of_def same nid_def)
  have od: "make_order self1 nid SELL 495 LIMIT 2 = Inr (note_sale note_market)"
    using mk by (simp add: make_order_def note_sale_def)
  have "received_holdings ops h self
      = (case sort (map snd (market_ids self)) of
           [] \<Rightarrow> Inl IndexError
         | m # ms \<Rightarrow>
             (let note_id = last (m # ms)
              in if cash h < 1000 then
                   (case Market_of self1 note_id of
                      Inl e \<Rightarrow> Inl e
                    | Inr note_market \<Rightarrow>
                        (case find (\<lambda>a. fm_id (asset_market a) = fm_id note_market)
                                (assets h) of
                           None \<Rightarrow> Inl KeyError
                         | Some a \<Rightarrow>
                             if asset_units a > 2 \<and> order_count self1 = 0 then
                               (case make_order self1 note_id SELL 495 LIMIT 2 of
                                  Inl e \<Rightarrow> Inl e
                                | Inr od \<Rightarrow>
                                    (case check_holdings od h of
                                       Inl e \<Rightarrow> Inl e
                                     | Inr ok \<Rightarrow>
                                         Inr (if ok
                                              then self1\<lparr>sent := sent self1 @ [od],
                                                   order_count := order_count self1 + 2\<rparr>
                                              else self1)))
                             else Inr self1))
                 else Inr self1))"
    unfolding received_holdings_def refresh by (simp add: same)
  also have "\<dots> = Inr (self1\<lparr>sent := sent self @ [note_sale note_market],
                               order_count := order_count self + 2\<rparr>)"
    unfolding srt list.case Let_def last
    using low_cash many idle feasible held
    by (simp add: same mk od)
  finally show ?thesis .
qed

theorem received_holdings_note_sale_witness:
  "\<exists>self'. received_holdings exact holdings0 bot0 = Inr self' \<and>
      sent self' = [note_sale market_Note] \<and> order_count self' = 2"
proof -
  have refresh: "fair_loop exact holdings0 (sort_key fst (markets bot0)) bot0
      = Inr (bot0\<lparr>fair_buy_prices := [(''A'', 723 / 400), (''Note'', 5)],
                   fair_sell_prices := [(''A'', - (737 / 400)), (''Note'', - 5)]\<rparr>)"
    by code_simp
  have ids: "market_ids bot0 \<noteq> []"
    by (simp add: bot0_def)
  have top: "map_of (markets bot0) (Max (set (map snd (market_ids bot0))))
      = Some market_Note"
    by (simp add: bot0_def)
  have held: "find (\<lambda>a. fm_id (asset_market a) = fm_id market_Note) (assets holdings0)
      = Some \<lparr>asset_market = market_Note, asset_units = 5, units_available = 5\<rparr>"
    by (simp add: holdings0_def market_A_def market_Note_def)
  have feasible: "check_holdings (note_sale market_Note) holdings0 = Inr True"
    by (simp add: check_holdings_def note_sale_def holdings0_def market_A_def
        market_Note_def)
  have "received_holdings exact holdings0 bot0
      = Inr (bot0\<lparr>fair_buy_prices := [(''A'', 723 / 400), (''Note'', 5)],
                   fair_sell_prices := [(''A'', - (737 / 400)), (''Note'', - 5)],
                   sent := sent bot0 @ [note_sale market_Note],
                   order_count := order_count bot0 + 2\<rparr>)"
    using received_holdings_note_sale [OF refresh ids top held _ _ _ feasible]
    by (simp add: holdings0_def bot0_def)
  then show ?thesis
    by (simp add: bot0_def)
qed

subsection \<open>Market making\<close>

text \<open>An order of \<open>_make_mm_order\<close> is the quote for the market of the security at the
  rounded price.\<close>

lemma make_mm_order_quote:
  assumes "make_mm_order ops self asset prices margin oside = Inr od"
  shows "\<exists>m. security_market self asset = Some m \<and> price_tick m \<noteq> 0
           \<and> od = mm_order m oside
                    (if oside = BUY then buy_quote_price ops prices margin (price_tick m)
                     else sell_quote_price ops prices margin (price_tick m))"
  using assms
  by (auto simp: make_mm_order_def make_order_def Market_of_def Let_def security_market_def
      mm_order_def buy_quote_price_def sell_quote_price_def
      split: option.splits if_splits)

text \<open>Sending and counting orders changes nothing that the quotes depend on.\<close>

lemma make_mm_order_frame:
  "make_mm_order ops (self\<lparr>sent := s, order_count := c\<rparr>) = make_mm_order ops self"
  by (intro ext)
    (simp add: make_mm_order_def make_order_def Market_of_def Let_def split: option.splits)

lemma security_market_frame:
  "security_market (self\<lparr>sent := s, order_count := c\<rparr>) = security_market self"
  by (intro ext) (simp add: security_market_def split: option.splits)

lemma fundable_frame:
  "fundable (self\<lparr>sent := s, order_count := c\<rparr>) = fundable self"
  by (intro ext) (simp add: fundable_def)

lemma expected_buy_frame:
  "expected_buy ops (self\<lparr>sent := s, order_count := c\<rparr>) = expected_buy ops self"
  by (intro ext) (simp only: expected_buy_def security_market_frame fundable_frame)

lemma expected_sell_frame:
  "expected_sell ops (self\<lparr>sent := s, order_count := c\<rparr>) = expected_sell ops self"
  by (intro ext) (simp only: expected_sell_def security_market_frame fundable_frame)

lemma submit_checked_fundable:
  assumes "submit_checked od self = Inr self1"
  shows "self1 = self\<lparr>sent := sent self @ (if fundable self od then [od] else []),
                       order_count := order_count self
                         + int (length (if fundable self od then [od] else []))\<rparr>"
proof -
  from assms obtain ok where ok: "check_holdings od (holdings self) = Inr ok"
    and self1: "self1 = (if ok then self\<lparr>sent := sent self @ [od],
                                          order_count := order_count self + 1\<rparr>
                         else self)"
    by (auto simp: submit_checked_def split: sum.splits)
  from ok have "fundable self od = ok"
    by (simp add: fundable_def)
  with self1 show ?thesis
    by simp
qed

text \<open>One pass of a loop: an order that is made and submitted, then the rest.\<close>

lemma sent_append_twice:
  assumes "self1 = self\<lparr>sent := sent self @ new1,
                         order_count := order_count self + int (length new1)\<rparr>"
    and "self' = self1\<lparr>sent := sent self1 @ new2,
                         order_count := order_count self1 + int (length new2)\<rparr>"
  shows "self' = self\<lparr>sent := sent self @ (new1 @ new2),
                       order_count := order_count self + int (length (new1 @ new2))\<rparr>"
  unfolding assms by simp

lemma mm_buy_loop_expected:
  assumes "mm_buy_loop ops margin ps self = Inr self'"
  shows "self' = self\<lparr>sent := sent self @ List.map_filter (expected_buy ops self margin) ps,
                       order_count := order_count self
                         + int (length (List.map_filter (expected_buy ops self margin) ps))\<rparr>"
  using assms
proof (induction ps arbitrary: self)
  case Nil
  then show ?case
    by (simp add: List.map_filter_simps)
next
  case (Cons p ps)
  obtain asset prices where p: "p = (asset, prices)"
    by (cases p)
  show ?case
  proof (cases "margin < to_cents ops prices")
    case False
    then have none: "expected_buy ops self margin p = None"
      by (simp add: expected_buy_def p)
    from False Cons.prems have "mm_buy_loop ops margin ps self = Inr self'"
      by (simp add: p)
    from Cons.IH [OF this] show ?thesis
      by (simp add: List.map_filter_simps none)
  next
    case True
    with Cons.prems obtain od self1 where
      od: "make_mm_order ops self asset (to_cents ops prices) margin BUY = Inr od"
      and sub: "submit_checked od self = Inr self1"
      and rest: "mm_buy_loop ops margin ps self1 = Inr self'"
      by (auto simp: p split: sum.splits)
    from make_mm_order_quote [OF od] obtain m where
      m: "security_market self asset = Some m"
      and quote: "od = mm_order m BUY
                         (buy_quote_price ops (to_cents ops prices) margin (price_tick m))"
      by auto
    let ?new1 = "if fundable self od then [od] else []"
    have head: "expected_buy ops self margin p = (if fundable self od then Some od else None)"
      using True m quote by (simp add: expected_buy_def p Let_def)
    note self1 = submit_checked_fundable [OF sub]
    have frame: "expected_buy ops self1 = expected_buy ops self"
      by (subst self1) (rule expected_buy_frame)
    note self' = Cons.IH [OF rest, unfolded frame]
    have "List.map_filter (expected_buy ops self margin) (p # ps)
        = ?new1 @ List.map_filter (expected_buy ops self margin) ps"
      by (simp add: List.map_filter_simps head)
    with sent_append_twice [OF self1 self'] show ?thesis
      by simp
  qed
qed

lemma mm_sell_loop_expected:
  assumes "mm_sell_loop ops margin ps self = Inr self'"
  shows "self' = self\<lparr>sent := sent self @ List.map_filter (expected_sell ops self margin) ps,
                       order_count := order_count self
                         + int (length (List.map_filter (expected_sell ops self margin) ps))\<rparr>"
  using assms
proof (induction ps arbitrary: self)
  case Nil
  then show ?case
    by (simp add: List.map_filter_simps)
next
  case (Cons p ps)
  obtain asset prices where p: "p = (asset, prices)"
    by (cases p)
  define base where
    "base = (if 0 < to_cents ops prices then 0 else to_cents ops (- prices))"
  show ?case
  proof (cases "0 < to_cents ops prices \<or> margin < to_cents ops (- prices)")
    case False
    then have none: "expected_sell ops self margin p = None"
      by (simp add: expected_sell_def p Let_def)
    from False Cons.prems have "mm_sell_loop ops margin ps self = Inr self'"
      by (simp add: p)
    from Cons.IH [OF this] show ?thesis
      by (simp add: List.map_filter_simps none)
  next
    case True
    with Cons.prems obtain od self1 where
      od: "make_mm_order ops self asset base margin SELL = Inr od"
      and sub: "submit_checked od self = Inr self1"
      and rest: "mm_sell_loop ops margin ps self1 = Inr self'"
      unfolding base_def by (auto simp: p split: sum.splits if_splits)
    from make_mm_order_quote [OF od] obtain m where
      m: "security_market self asset = Some m"
      and quote: "od = mm_order m SELL (sell_quote_price ops base margin (price_tick m))"
      by auto
    let ?new1 = "if fundable self od then [od] else []"
    have head: "expected_sell ops self margin p = (if fundable self od then Some od else None)"
      using True m quote by (simp add: expected_sell_def p Let_def base_def)
    note self1 = submit_checked_fundable [OF sub]
    have frame: "expected_sell ops self1 = expected_sell ops self"
      by (subst self1) (rule expected_sell_frame)
    note self' = Cons.IH [OF rest, unfolded frame]
    have "List.map_filter (expected_sell ops self margin) (p # ps)
        = ?new1 @ List.map_filter (expected_sell ops self margin) ps"
      by (simp add: List.map_filter_simps head)
    with sent_append_twice [OF self1 self'] show ?thesis
      by simp
  qed
qed

text \<open>
  C3, as the code has it, in every arithmetic. A run of the market-making strategy that
  raises nothing submits, in this order, the expected buy order of every entry of the
  fair buy prices and the expected sell order of every entry of the fair sell prices,
  and nothing else, and counts each: with \<open>margin\<close> the margin at the elapsed time and
  \<open>tick\<close> the price tick of the market of the security, a buy order at
  \<open>floor((fairBuy - margin)/tick)*tick\<close> for each security whose fair buy price in cents
  exceeds the margin; a sell order at \<open>ceil((0 + margin)/tick)*tick\<close> for each security
  whose fair sell price is positive, and at \<open>ceil((- fairSell + margin)/tick)*tick\<close> for
  each security whose fair sell price is not positive and exceeds the margin in
  magnitude; in each case only if the holdings fund the order.
\<close>

theorem mm_strategy_quotes:
  assumes "mm_strategy ops time_elapsed self = Inr self'"
  shows "sent self'
           = sent self
             @ List.map_filter (expected_buy ops self (find_margin self time_elapsed))
                 (fair_buy_prices self)
             @ List.map_filter (expected_sell ops self (find_margin self time_elapsed))
                 (fair_sell_prices self)
         \<and> order_count self'
           = order_count self
             + int (length (List.map_filter
                              (expected_buy ops self (find_margin self time_elapsed))
                              (fair_buy_prices self)))
             + int (length (List.map_filter
                              (expected_sell ops self (find_margin self time_elapsed))
                              (fair_sell_prices self)))"
proof -
  define margin where "margin = find_margin self time_elapsed"
  define buys where "buys = List.map_filter (expected_buy ops self margin) (fair_buy_prices self)"
  define sells where
    "sells = List.map_filter (expected_sell ops self margin) (fair_sell_prices self)"
  from assms obtain self1 where
    buy_loop: "mm_buy_loop ops margin (fair_buy_prices self) self = Inr self1"
    and sell_loop: "mm_sell_loop ops margin (fair_sell_prices self1) self1 = Inr self'"
    by (auto simp: mm_strategy_def Let_def margin_def split: sum.splits)
  have self1: "self1 = self\<lparr>sent := sent self @ buys,
                              order_count := order_count self + int (length buys)\<rparr>"
    unfolding buys_def by (rule mm_buy_loop_expected [OF buy_loop])
  have frame: "expected_sell ops self1 = expected_sell ops self"
    "fair_sell_prices self1 = fair_sell_prices self"
    by (subst self1, rule expected_sell_frame) (subst self1, simp)
  have self': "self' = self1\<lparr>sent := sent self1 @ sells,
                               order_count := order_count self1 + int (length sells)\<rparr>"
    using mm_sell_loop_expected [OF sell_loop] unfolding frame sells_def .
  have "self' = self\<lparr>sent := sent self @ (buys @ sells),
                       order_count := order_count self + int (length (buys @ sells))\<rparr>"
    by (rule sent_append_twice [OF self1 self'])
  then have "sent self' = sent self @ buys @ sells"
    and "order_count self' = order_count self + int (length buys) + int (length sells)"
    by simp_all
  then show ?thesis
    unfolding buys_def sells_def margin_def by simp
qed

text \<open>One minute into the session the margin of the concrete agent is 25; long in the
  stock, in exact arithmetic it bids 475 for the note, offers the stock at 25 and offers
  the note at 525.\<close>

lemma find_margin_bot_long: "find_margin bot_long 1 = 25"
  by (simp add: find_margin_def bot_long_def bot0_def)

lemma mm_strategy_bot_long:
  "mm_strategy exact 1 bot_long
     = Inr (bot_long\<lparr>sent := [mm_order market_Note BUY 475, mm_order market_A SELL 25,
                                mm_order market_Note SELL 525],
                       order_count := 3\<rparr>)"
proof -
  have "find_performance exact bot_long (holdings bot_long) None = Inr (- (255 / 4))"
    by code_simp
  moreover have "mm_buy_loop exact 25 (fair_buy_prices bot_long) bot_long
      = Inr (bot_long\<lparr>sent := [mm_order market_Note BUY 475], order_count := 1\<rparr>)"
    by code_simp
  moreover have "fair_sell_prices
        (bot_long\<lparr>sent := [mm_order market_Note BUY 475], order_count := 1\<rparr>)
      = fair_sell_prices bot_long"
    by simp
  moreover have "mm_sell_loop exact 25 (fair_sell_prices bot_long)
        (bot_long\<lparr>sent := [mm_order market_Note BUY 475], order_count := 1\<rparr>)
      = Inr (bot_long\<lparr>sent := [mm_order market_Note BUY 475, mm_order market_A SELL 25,
                                  mm_order market_Note SELL 525],
                         order_count := 3\<rparr>)"
    by code_simp
  ultimately show ?thesis
    by (simp add: mm_strategy_def find_margin_bot_long)
qed

theorem mm_strategy_quotes_witness:
  "List.map_filter (expected_buy exact bot_long 25) (fair_buy_prices bot_long)
     = [mm_order market_Note BUY 475]
   \<and> List.map_filter (expected_sell exact bot_long 25) (fair_sell_prices bot_long)
     = [mm_order market_A SELL 25, mm_order market_Note SELL 525]
   \<and> [mm_order market_Note BUY 475, mm_order market_A SELL 25, mm_order market_Note SELL 525]
     = List.map_filter (expected_buy exact bot_long 25) (fair_buy_prices bot_long)
       @ List.map_filter (expected_sell exact bot_long 25) (fair_sell_prices bot_long)
   \<and> (3 :: int)
     = int (length (List.map_filter (expected_buy exact bot_long 25)
                      (fair_buy_prices bot_long)))
       + int (length (List.map_filter (expected_sell exact bot_long 25)
                        (fair_sell_prices bot_long)))"
proof -
  have buys: "List.map_filter (expected_buy exact bot_long 25) (fair_buy_prices bot_long)
      = [mm_order market_Note BUY 475]"
    by code_simp
  have sells: "List.map_filter (expected_sell exact bot_long 25) (fair_sell_prices bot_long)
      = [mm_order market_A SELL 25, mm_order market_Note SELL 525]"
    by code_simp
  have "sent bot_long = []" and "order_count bot_long = 0"
    by (simp_all add: bot_long_def bot0_def)
  with mm_strategy_quotes [OF mm_strategy_bot_long] buys sells show ?thesis
    unfolding find_margin_bot_long by simp
qed

text \<open>C3 as stated fails for the stock of that agent: its fair sell price is positive,
  323.25 cents, the margin is 25 and the tick is 5, so the formula of the claim gives
  \<open>ceil((323.25 + 25)/5)*5 = 350\<close>, while the order submitted for the stock asks 25.\<close>

theorem mm_strategy_positive_fair_sell:
  "find_fair_price exact bot_long 1 holdings_long SELL = Inr (1293 / 400) \<and>
   fair_sell_prices bot_long = [(''A'', 1293 / 400), (''Note'', - 5)] \<and>
   find_margin bot_long 1 = 25 \<and> price_tick market_A = 5 \<and>
   sell_quote_price exact (to_cents exact (1293 / 400)) 25 5 = 350 \<and>
   mm_strategy exact 1 bot_long
     = Inr (bot_long\<lparr>sent := [mm_order market_Note BUY 475, mm_order market_A SELL 25,
                                mm_order market_Note SELL 525],
                       order_count := 3\<rparr>)"
proof -
  have "find_fair_price exact bot_long 1 holdings_long SELL = Inr (1293 / 400)"
    by code_simp
  moreover have "fair_sell_prices bot_long = [(''A'', 1293 / 400), (''Note'', - 5)]"
    by (simp add: bot_long_def)
  moreover have "sell_quote_price exact (to_cents exact (1293 / 400)) 25 5 = 350"
    by code_simp
  moreover have "price_tick market_A = 5"
    by (simp add: market_A_def)
  ultimately show ?thesis
    using find_margin_bot_long mm_strategy_bot_long by simp
qed

text \<open>The rounding decides a quote at a tick boundary. For a fair sell price of -1.3 (the
  binary64 number nearest to it) and margin 25, binary64 arithmetic rounds the price in
  cents to 130 and asks 155; exact arithmetic keeps it just above 130 and asks 160.\<close>

lemma mm_sell_loop_tick_boundary:
  "mm_sell_loop binary64 25 [(''A'', - round64 (13 / 10))] bot_long
     = Inr (bot_long\<lparr>sent := [mm_order market_A SELL 155], order_count := 1\<rparr>)"
  "mm_sell_loop exact 25 [(''A'', - round64 (13 / 10))] bot_long
     = Inr (bot_long\<lparr>sent := [mm_order market_A SELL 160], order_count := 1\<rparr>)"
  by code_simp+

subsection \<open>Portfolio optimality search\<close>

text \<open>The enumeration: the sublists of the best quotes, by increasing length, and for
  one length in the order in which \<open>subseqs\<close> lists them.\<close>

lemma combinations_subseqs:
  "combinations xs r = filter (\<lambda>ys. length ys = r) (subseqs xs)"
proof (induction xs r rule: combinations.induct)
  case (1 xs)
  show ?case
  proof (induction xs)
    case Nil
    show ?case by simp
  next
    case (Cons x xs)
    then show ?case
      by (simp add: Let_def filter_map comp_def)
  qed
next
  case (2 r)
  show ?case by simp
next
  case (3 x xs r)
  then show ?case
    by (simp add: Let_def filter_map comp_def)
qed


lemma all_combos_subseqs:
  "all_combos xs
     = concat (map (\<lambda>r. filter (\<lambda>ys. length ys = r) (subseqs xs)) [0..<length xs + 1])"
proof -
  have "combinations xs = (\<lambda>r. filter (\<lambda>ys. length ys = r) (subseqs xs))"
    by (rule ext) (rule combinations_subseqs)
  then show ?thesis
    by (simp only: all_combos_def)
qed



lemma all_combos_sorted: "sorted (map length (all_combos xs))"
proof -
  have same: "sorted (map length (filter (\<lambda>ys. length ys = n) yss))"
    for n and yss :: "'a list list"
    by (induction yss) auto
  have "sorted (map length (concat (map (\<lambda>r. filter (\<lambda>ys. length ys = r) yss) [0..<n])))"
    for n and yss :: "'a list list"
  proof (induction n)
    case 0
    show ?case by simp
  next
    case (Suc n)
    with same [of n yss] show ?case
      by (auto simp: sorted_append)
  qed
  then show ?thesis
    unfolding all_combos_subseqs .
qed



text \<open>The performance is a value when the shapes fit and every order is in a security
  with a position in the holdings vector.\<close>

lemma adj_loop_total:
  assumes "\<forall>od \<in> set orders. \<exists>i. index_of mkts (item (market od)) = Some i \<and> i < n"
    and "length adjustment = n"
  shows "\<exists>adj. adj_loop ops mkts adjustment orders = Inr adj \<and> length adj = n"
  using assms
proof (induction orders arbitrary: adjustment)
  case Nil
  then show ?case by simp
next
  case (Cons od orders)
  from Cons.prems(1) obtain i where i: "index_of mkts (item (market od)) = Some i" "i < n"
    by auto
  let ?next = "adjustment[i := (if order_side od = BUY then f_add ops (adjustment ! i) 1
                                 else f_sub ops (adjustment ! i) 1)]"
  have "\<exists>adj. adj_loop ops mkts ?next orders = Inr adj \<and> length adj = n"
    using Cons.prems by (intro Cons.IH) simp_all
  with i Cons.prems(2) show ?case
    by simp
qed

lemma performance_value_total:
  assumes "length (exp_payoffs_matrix self) = n" and "length (cov_matrix self) = n"
    and "list_all (\<lambda>row. length row = n) (cov_matrix self)" and "length uh = n"
  shows "\<exists>d cv pv. dot ops uh (exp_payoffs_matrix self) = Inr d
           \<and> mat_dot ops (cov_matrix self) uh = Inr cv \<and> dot ops uh cv = Inr pv"
proof -
  have "\<not> list_ex (\<lambda>row. length row \<noteq> length uh) (cov_matrix self)"
    using assms(3,4) by (simp add: list_all_iff list_ex_iff)
  then have "mat_dot ops (cov_matrix self) uh
      = Inr (map (np_dot_row ops (cov_matrix self) uh) [0..<length (cov_matrix self)])"
    by (simp add: mat_dot_def)
  moreover have "\<exists>pv. dot ops uh
        (map (np_dot_row ops (cov_matrix self) uh) [0..<length (cov_matrix self)])
      = Inr pv"
    using assms(2,4) by (simp add: dot_def)
  moreover have "\<exists>d. dot ops uh (exp_payoffs_matrix self) = Inr d"
    using assms(1,4) by (simp add: dot_def)
  ultimately show ?thesis
    by auto
qed

lemma find_performance_total:
  assumes shapes: "length (exp_payoffs_matrix self) = length (assets h)"
    "length (cov_matrix self) = length (assets h)"
    "list_all (\<lambda>row. length row = length (assets h)) (cov_matrix self)"
    and known: "\<forall>od \<in> set orders. \<exists>i.
      index_of (sort (map fst (market_ids self))) (item (market od)) = Some i
      \<and> i < length (assets h)"
  shows "\<exists>p. find_performance ops self h (Some orders) = Inr p"
proof -
  define uh0 where "uh0 = map (\<lambda>a. real_of_int (asset_units a))
                            (sort_key (\<lambda>a. item (asset_market a)) (assets h))"
  have len0: "length uh0 = length (assets h)"
    by (simp add: uh0_def)
  show ?thesis
  proof (cases orders)
    case Nil
    from performance_value_total [OF shapes len0] obtain d cv pv where
      "dot ops uh0 (exp_payoffs_matrix self) = Inr d" "mat_dot ops (cov_matrix self) uh0 = Inr cv"
      "dot ops uh0 cv = Inr pv"
      by blast
    then show ?thesis
      unfolding Nil by (simp add: find_performance_def uh0_def [symmetric] Let_def)
  next
    case (Cons od ods)
    have "length (replicate (length uh0) (0 :: real)) = length (assets h)"
      by (simp add: len0)
    from adj_loop_total [OF known this] obtain adj where
      adj: "adj_loop ops (sort (map fst (market_ids self))) (replicate (length uh0) 0) orders
              = Inr adj"
      and len_adj: "length adj = length (assets h)"
      by blast
    define uh where "uh = map2 (f_add ops) uh0 adj"
    have adj_h: "adj_holdings ops self uh0 (od # ods) = Inr uh"
      using adj unfolding Cons by (simp add: adj_holdings_def uh_def)
    have "length uh = length (assets h)"
      by (simp add: uh_def len0 len_adj)
    from performance_value_total [OF shapes this] obtain d cv pv where
      "dot ops uh (exp_payoffs_matrix self) = Inr d" "mat_dot ops (cov_matrix self) uh = Inr cv"
      "dot ops uh cv = Inr pv"
      by blast
    then show ?thesis
      unfolding Cons using adj_h
      by (simp add: find_performance_def uh0_def [symmetric] Let_def)
  qed
qed

lemma find_performance_base_total:
  assumes "length (exp_payoffs_matrix self) = length (assets h)"
    "length (cov_matrix self) = length (assets h)"
    "list_all (\<lambda>row. length row = length (assets h)) (cov_matrix self)"
  shows "\<exists>p. find_performance ops self h None = Inr p"
proof -
  have "\<exists>p. find_performance ops self h (Some []) = Inr p"
    using assms by (intro find_performance_total) simp_all
  then show ?thesis
    by (simp add: find_performance_def)
qed








text \<open>In exact arithmetic the same sale gains nothing and the holdings are optimal.\<close>

lemma is_portfolio_optimal_thin_exact:
  "improvement exact bot_thin [quote market_Note BUY 500] = 0"
  "is_portfolio_optimal exact bot_thin True = Inr (Flag_Combo True None)"
  by code_simp+

subsection \<open>The refresh of the fair prices\<close>

text \<open>The refresh of the fair prices raises nothing when the shapes of the payoff model
  fit the holdings and every market is listed under its identifier with a security that
  has a position in the holdings vector.\<close>

lemma find_fair_price_total:
  assumes shapes: "length (exp_payoffs_matrix self) = length (assets h)"
    "length (cov_matrix self) = length (assets h)"
    "list_all (\<lambda>row. length row = length (assets h)) (cov_matrix self)"
    and listed: "map_of (markets self) market_id = Some m"
    and pos: "index_of (sort (map fst (market_ids self))) (item m) = Some i"
      "i < length (assets h)"
  shows "\<exists>p. find_fair_price ops self market_id h oside = Inr p"
proof -
  from find_performance_base_total [OF shapes] obtain pre where
    pre: "find_performance ops self h None = Inr pre"
    by blast
  define od where "od = \<lparr>mine = True, is_pending = False, market = m, order_side = oside,
                           order_type = LIMIT, price = 0, units = 1\<rparr>"
  have od: "make_order self market_id oside 0 LIMIT 1 = Inr od"
    using listed by (simp add: make_order_def Market_of_def od_def)
  have "\<exists>p. find_performance ops self h (Some [od]) = Inr p"
    using pos by (intro find_performance_total shapes) (simp add: od_def)
  then obtain post where "find_performance ops self h (Some [od]) = Inr post"
    by blast
  with pre od show ?thesis
    by (simp add: find_fair_price_def)
qed

lemma fair_loop_total:
  assumes "length (exp_payoffs_matrix self) = length (assets h)"
    and "length (cov_matrix self) = length (assets h)"
    and "list_all (\<lambda>row. length row = length (assets h)) (cov_matrix self)"
    and "\<forall>p \<in> set ms. \<exists>m i. map_of (markets self) (fst p) = Some m
           \<and> index_of (sort (map fst (market_ids self))) (item m) = Some i
           \<and> i < length (assets h)"
  shows "\<exists>self1. fair_loop ops h ms self = Inr self1"
  using assms
proof (induction ms arbitrary: self)
  case Nil
  show ?case by simp
next
  case (Cons p ms)
  obtain market_id market_info where p: "p = (market_id, market_info)"
    by (cases p)
  from Cons.prems(4) obtain m i where m: "map_of (markets self) market_id = Some m"
    "index_of (sort (map fst (market_ids self))) (item m) = Some i" "i < length (assets h)"
    by (auto simp: p)
  from find_fair_price_total [OF Cons.prems(1-3) m] obtain fb fs where
    fb: "find_fair_price ops self market_id h BUY = Inr fb"
    and fs: "find_fair_price ops self market_id h SELL = Inr fs"
    by metis
  let ?next = "self\<lparr>fair_buy_prices := AList.update (item market_info) fb (fair_buy_prices self),
                    fair_sell_prices := AList.update (item market_info) fs (fair_sell_prices self)\<rparr>"
  have "\<exists>self1. fair_loop ops h ms ?next = Inr self1"
    using Cons.prems by (intro Cons.IH) simp_all
  with fb fs show ?case
    by (simp add: p Let_def)
qed

end
